theory Spec2Isabelle
  imports Complex_Main
begin

section \<open>The image classifier of \<^verbatim>\<open>classifier.py\<close>\<close>

text \<open>
  A shallow embedding of \<^verbatim>\<open>ImageClassifier\<close>: its constructor, its training and
  validation steps and \<^verbatim>\<open>configure_optimizers\<close>. Python floats are read as real
  numbers (all comparisons of the source are exact on finite floats), Python ints as
  \<^typ>\<open>int\<close>. Calls into PyTorch whose result the source only passes on (the transforms,
  the network's forward pass, the cross-entropy) are parameters of the model.
\<close>

subsection \<open>Errors\<close>

datatype error =
    KeyError string
  | TypeError
  | IndexError
  | RuntimeError
  | ZeroDivisionError

subsection \<open>Hyper-parameters: the arguments of \<^verbatim>\<open>__init__\<close>\<close>

record backbone_obj =
  get_out_channels :: "int list"

datatype backbone_arg = Name string | Instance backbone_obj

record hparams =
  backbone :: backbone_arg
  num_classes :: int
  train_dir :: string
  val_dir :: string
  batch_size :: int
  num_workers :: int
  train_crop_size :: int
  val_resize_size :: int
  val_crop_size :: int
  random_erasing_p :: real
  mixup_alpha :: real
  cutmix_alpha :: real
  optimizer :: string
  lr :: real
  weight_decay :: real
  norm_weight_decay :: "real option"
  label_smoothing :: real
  warmup_epochs :: int
  warmup_decay :: real

text \<open>The defaults of the signature; the four arguments without a default are given.\<close>

definition default_hparams :: "backbone_arg \<Rightarrow> int \<Rightarrow> string \<Rightarrow> string \<Rightarrow> hparams" where
  "default_hparams b n td vd =
     \<lparr> backbone = b, num_classes = n, train_dir = td, val_dir = vd,
       batch_size = 128, num_workers = 4, train_crop_size = 176,
       val_resize_size = 232, val_crop_size = 224,
       random_erasing_p = 1 / 10, mixup_alpha = 2 / 10, cutmix_alpha = 1,
       optimizer = ''SGD'', lr = 5 / 100, weight_decay = 2 / 100000,
       norm_weight_decay = Some 0, label_smoothing = 1 / 10,
       warmup_epochs = 5, warmup_decay = 1 / 100 \<rparr>"

subsection \<open>The constructor\<close>

text \<open>
  \<^verbatim>\<open>backbones.__dict__[backbone]()\<close>: the namespace of the \<^verbatim>\<open>backbones\<close> package is a
  parameter, a map from a name to what calling the entry of that name returns. A name
  that is not a key raises \<^verbatim>\<open>KeyError\<close>. The namespace of a module holds more than the
  backbones it defines: \<^verbatim>\<open>__name__\<close> and \<^verbatim>\<open>__doc__\<close> are keys of every one, and calling
  such an entry raises \<^verbatim>\<open>TypeError\<close>.
\<close>

type_synonym registry = "string \<rightharpoonup> error + backbone_obj"

definition resolve_backbone :: "registry \<Rightarrow> backbone_arg \<Rightarrow> error + backbone_obj" where
  "resolve_backbone reg b =
     (case b of
        Name s \<Rightarrow> (case reg s of None \<Rightarrow> Inl (KeyError s) | Some r \<Rightarrow> r)
      | Instance obj \<Rightarrow> Inr obj)"

text \<open>\<^verbatim>\<open>backbone.get_out_channels()[-1]\<close>.\<close>

definition last_channel :: "backbone_obj \<Rightarrow> error + int" where
  "last_channel b =
     (case get_out_channels b of [] \<Rightarrow> Inl IndexError | x # xs \<Rightarrow> Inr (last (x # xs)))"

datatype layer =
    AdaptiveAvgPool2d int int
  | Flatten
  | Linear int int

datatype transform =
    RandomHorizontalFlip
  | TrivialAugmentWide
  | ConvertImageDtype
  | Normalize
  | RandomErasing real

datatype mixer = RandomCutMixMixUp int real real

record image_classifier =
  ic_backbone :: backbone_obj
  ic_classifier :: "layer list"
  train_transforms :: "transform list"
  mixup_cutmix :: "mixer option"
  ic_hparams :: hparams

definition make_train_transforms :: "real \<Rightarrow> transform list" where
  "make_train_transforms p =
     [RandomHorizontalFlip, TrivialAugmentWide, ConvertImageDtype, Normalize]
     @ (if p > 0 then [RandomErasing p] else [])"

definition make_mixup_cutmix :: "int \<Rightarrow> real \<Rightarrow> real \<Rightarrow> mixer option" where
  "make_mixup_cutmix n cutmix mixup =
     (if cutmix > 0 \<and> mixup > 0 then Some (RandomCutMixMixUp n cutmix mixup) else None)"

text \<open>
  \<^verbatim>\<open>__init__\<close>. \<^verbatim>\<open>torch.jit.script\<close> compiles a module and leaves what it computes as it
  is, so the compiled modules are the modules; \<^verbatim>\<open>save_hyperparameters()\<close> keeps the
  arguments as \<^verbatim>\<open>self.hparams\<close>.
\<close>

definition init :: "registry \<Rightarrow> hparams \<Rightarrow> error + image_classifier" where
  "init reg hp =
     (case resolve_backbone reg (backbone hp) of
        Inl e \<Rightarrow> Inl e
      | Inr b \<Rightarrow>
          (case last_channel b of
             Inl e \<Rightarrow> Inl e
           | Inr c \<Rightarrow>
               Inr \<lparr> ic_backbone = b,
                     ic_classifier = [AdaptiveAvgPool2d 1 1, Flatten, Linear c (num_classes hp)],
                     train_transforms = make_train_transforms (random_erasing_p hp),
                     mixup_cutmix =
                       make_mixup_cutmix (num_classes hp) (cutmix_alpha hp) (mixup_alpha hp),
                     ic_hparams = hp \<rparr>))"

subsection \<open>Training and validation steps\<close>

text \<open>
  Labels are integer class indices, or one distribution over the classes per sample once
  a mixed-sample augmentation has run. The random state the stochastic stages draw from
  is threaded through. The library calls are the fields of \<open>ops\<close>: how a transform
  pipeline and a mixer act on a batch, what the backbone and the head compute, and
  \<^verbatim>\<open>F.cross_entropy\<close> with its \<^verbatim>\<open>label_smoothing\<close> argument (\<^verbatim>\<open>0.0\<close> when it is not
  given).
\<close>

datatype labels = Hard "int list" | Soft "real list list"

datatype tfloat = Finite real | PosInf | NaN

record ('img, 'feat, 'rng) ops =
  apply_transforms :: "transform list \<Rightarrow> 'rng \<Rightarrow> 'img \<Rightarrow> 'img \<times> 'rng"
  apply_mixer :: "mixer \<Rightarrow> 'rng \<Rightarrow> 'img \<times> labels \<Rightarrow> ('img \<times> labels) \<times> 'rng"
  backbone_forward :: "backbone_obj \<Rightarrow> 'img \<Rightarrow> 'feat"
  classifier_forward :: "layer list \<Rightarrow> 'feat \<Rightarrow> real list list"
  cross_entropy :: "real list list \<Rightarrow> labels \<Rightarrow> real \<Rightarrow> tfloat"

definition forward :: "('img, 'feat, 'rng) ops \<Rightarrow> image_classifier \<Rightarrow> 'img \<Rightarrow> real list list" where
  "forward ops self x =
     (let out = backbone_forward ops (ic_backbone self) x
      in classifier_forward ops (ic_classifier self) out)"

text \<open>Lines 112 to 116: what \<^verbatim>\<open>training_step\<close> feeds to the network and the loss.\<close>

definition training_inputs ::
  "('img, 'feat, 'rng) ops \<Rightarrow> image_classifier \<Rightarrow> 'rng \<Rightarrow> 'img \<times> labels \<Rightarrow> ('img \<times> labels) \<times> 'rng" where
  "training_inputs ops self rng batch =
     (let (images, rng1) = apply_transforms ops (train_transforms self) rng (fst batch)
      in case mixup_cutmix self of
           None \<Rightarrow> ((images, snd batch), rng1)
         | Some m \<Rightarrow> apply_mixer ops m rng1 (images, snd batch))"

record 'rng step_result =
  loss :: tfloat
  logged :: "(string \<times> tfloat) list"
  rng_after :: 'rng

definition training_step ::
  "('img, 'feat, 'rng) ops \<Rightarrow> image_classifier \<Rightarrow> 'rng \<Rightarrow> 'img \<times> labels \<Rightarrow> 'rng step_result" where
  "training_step ops self rng batch =
     (let ((images, lbls), rng1) = training_inputs ops self rng batch;
          logits = forward ops self images;
          l = cross_entropy ops logits lbls 0
      in \<lparr> loss = l, logged = [(''train/loss'', l)], rng_after = rng1 \<rparr>)"

text \<open>
  \<^verbatim>\<open>torch.argmax(logits, dim=-1)\<close>: per row the index of the first maximal entry; a row
  without entries cannot be reduced.
\<close>

fun argmax_from :: "real list \<Rightarrow> nat \<Rightarrow> real \<Rightarrow> nat \<Rightarrow> nat" where
  "argmax_from [] i best bi = bi"
| "argmax_from (x # xs) i best bi =
     (if x > best then argmax_from xs (Suc i) x i else argmax_from xs (Suc i) best bi)"

definition argmax :: "real list \<Rightarrow> error + nat" where
  "argmax row = (case row of [] \<Rightarrow> Inl IndexError | x # xs \<Rightarrow> Inr (argmax_from xs 1 x 0))"

fun argmax_rows :: "real list list \<Rightarrow> error + int list" where
  "argmax_rows [] = Inr []"
| "argmax_rows (r # rs) =
     (case argmax r of
        Inl e \<Rightarrow> Inl e
      | Inr i \<Rightarrow> (case argmax_rows rs of Inl e \<Rightarrow> Inl e | Inr is \<Rightarrow> Inr (int i # is)))"

text \<open>
  \<^verbatim>\<open>(labels == preds).sum()\<close> on one-dimensional tensors: elementwise on equal lengths, a
  tensor of one element is broadcast, any other pair of lengths is refused.
\<close>

definition count_equal :: "int list \<Rightarrow> int list \<Rightarrow> error + nat" where
  "count_equal lbls preds =
     (if length lbls = length preds
      then Inr (length (filter (\<lambda>(l, p). l = p) (zip lbls preds)))
      else if length lbls = 1 then Inr (length (filter (\<lambda>p. hd lbls = p) preds))
      else if length preds = 1 then Inr (length (filter (\<lambda>l. l = hd preds) lbls))
      else Inl RuntimeError)"

text \<open>\<^verbatim>\<open>correct / labels.numel()\<close>: true division of tensors, which does not raise.\<close>

definition tensor_div :: "nat \<Rightarrow> nat \<Rightarrow> tfloat" where
  "tensor_div c n =
     (if n = 0 then (if c = 0 then NaN else PosInf) else Finite (real c / real n))"

text \<open>Lines 131 to 133.\<close>

definition top1_accuracy :: "real list list \<Rightarrow> int list \<Rightarrow> error + tfloat" where
  "top1_accuracy logits lbls =
     (case argmax_rows logits of
        Inl e \<Rightarrow> Inl e
      | Inr preds \<Rightarrow>
          (case count_equal lbls preds of
             Inl e \<Rightarrow> Inl e
           | Inr correct \<Rightarrow> Inr (tensor_div correct (length lbls))))"

text \<open>
  \<^verbatim>\<open>validation_step\<close> returns nothing; its outcome is what it has logged, and the error
  that stopped it, if one did.
\<close>

definition validation_step ::
  "('img, 'feat, 'rng) ops \<Rightarrow> image_classifier \<Rightarrow> 'img \<times> int list \<Rightarrow>
     (string \<times> tfloat) list \<times> error option" where
  "validation_step ops self batch =
     (let logits = forward ops self (fst batch);
          l = cross_entropy ops logits (Hard (snd batch)) (label_smoothing (ic_hparams self))
      in case top1_accuracy logits (snd batch) of
           Inl e \<Rightarrow> ([(''val/loss'', l)], Some e)
         | Inr acc \<Rightarrow> ([(''val/loss'', l), (''val/acc'', acc)], None))"

subsection \<open>Module trees and their parameters\<close>

text \<open>
  An \<^verbatim>\<open>nn.Module\<close> owns parameters and child modules. A parameter is an object with a
  \<^verbatim>\<open>requires_grad\<close> flag; two parameters are the same object when they are equal here,
  the number being the object's identity. \<open>isinstance_norm\<close> is the outcome of
  \<^verbatim>\<open>isinstance(module, norm_classes)\<close>. The submodules of a tree are taken to be distinct
  objects, each of them truthy, so that \<^verbatim>\<open>modules()\<close> skips none of them and
  \<^verbatim>\<open>next(module.children(), None)\<close> is truthy exactly when there is a child.
\<close>

datatype param = Param (pid: nat) (requires_grad: bool)

datatype module_class = BatchNorm | LayerNorm | GroupNorm | OtherClass

datatype module = Module (mclass: module_class) (own_params: "param list") (children: "module list")

definition isinstance_norm :: "module \<Rightarrow> bool" where
  "isinstance_norm m = (mclass m = BatchNorm \<or> mclass m = LayerNorm \<or> mclass m = GroupNorm)"

text \<open>\<^verbatim>\<open>modules()\<close>: the module itself, then its descendants, depth first.\<close>

fun modules :: "module \<Rightarrow> module list" where
  "modules (Module c ps cs) = Module c ps cs # concat (map modules cs)"

text \<open>
  The iterators of PyTorch yield an object once: they keep a memo of what they have
  yielded.
\<close>

fun dedup_memo :: "'a list \<Rightarrow> 'a list \<Rightarrow> 'a list" where
  "dedup_memo memo [] = []"
| "dedup_memo memo (x # xs) =
     (if x \<in> set memo then dedup_memo memo xs else x # dedup_memo (x # memo) xs)"

definition parameters :: "bool \<Rightarrow> module \<Rightarrow> param list" where
  "parameters recurse m =
     dedup_memo [] (concat (map own_params (if recurse then modules m else [m])))"

subsection \<open>\<^verbatim>\<open>configure_optimizers\<close>\<close>

text \<open>The loop of lines 143 to 149 over \<^verbatim>\<open>self.modules()\<close>, with its two lists.\<close>

fun group_loop :: "module list \<Rightarrow> param list \<Rightarrow> param list \<Rightarrow> param list \<times> param list" where
  "group_loop [] norm_params other_params = (norm_params, other_params)"
| "group_loop (m # ms) norm_params other_params =
     (if children m \<noteq> []
      then group_loop ms norm_params
             (other_params @ filter requires_grad (parameters False m))
      else if isinstance_norm m
      then group_loop ms (norm_params @ filter requires_grad (parameters True m)) other_params
      else group_loop ms norm_params
             (other_params @ filter requires_grad (parameters True m)))"

definition param_groups :: "module \<Rightarrow> param list \<times> param list" where
  "param_groups self = group_loop (modules self) [] []"

text \<open>What the optimizer is given: parameter groups, or the iterator \<^verbatim>\<open>self.parameters()\<close>.\<close>

datatype optimizer_params =
    Groups "(param list \<times> real) list"
  | Flat "param list"

definition optimizer_parameters :: "hparams \<Rightarrow> module \<Rightarrow> optimizer_params" where
  "optimizer_parameters hp self =
     (case norm_weight_decay hp of
        Some nwd \<Rightarrow>
          Groups (filter (\<lambda>(p, w). p \<noteq> [])
            [(fst (param_groups self), nwd), (snd (param_groups self), weight_decay hp)])
      | None \<Rightarrow> Flat (parameters True self))"

datatype optimizer_class = SGD real | Adam | AdamW | RMSprop real

definition optimizers :: "string \<rightharpoonup> optimizer_class" where
  "optimizers =
     [''SGD'' \<mapsto> SGD (9 / 10), ''Adam'' \<mapsto> Adam, ''AdamW'' \<mapsto> AdamW,
      ''RMSprop'' \<mapsto> RMSprop (9 / 10)]"

record optimizer_obj =
  opt_class :: optimizer_class
  opt_params :: optimizer_params
  opt_lr :: real
  opt_weight_decay :: real

text \<open>The schedulers are kept as the constructor calls the source makes.\<close>

datatype scheduler =
    CosineAnnealingLR int
  | LinearLR real int
  | SequentialLR "scheduler list" "int list"

record configured =
  cfg_optimizer :: optimizer_obj
  lr_scheduler :: scheduler

text \<open>
  Lines 160 to 163; \<open>max_epochs\<close> is \<^verbatim>\<open>self.trainer.max_epochs\<close>. The attribute that
  lines 166 and 167 set on the sequence, when it lacks it, is the optimizer and changes
  nothing of the schedule.
\<close>

definition make_scheduler :: "hparams \<Rightarrow> int \<Rightarrow> scheduler" where
  "make_scheduler hp max_epochs =
     (let cosine = CosineAnnealingLR (max_epochs - warmup_epochs hp)
      in if warmup_epochs hp > 0
         then SequentialLR [cosine, LinearLR (warmup_decay hp) (warmup_epochs hp)]
                [warmup_epochs hp]
         else cosine)"

definition configure_optimizers :: "hparams \<Rightarrow> module \<Rightarrow> int \<Rightarrow> error + configured" where
  "configure_optimizers hp self max_epochs =
     (let ps = optimizer_parameters hp self
      in case optimizers (optimizer hp) of
           None \<Rightarrow> Inl (KeyError (optimizer hp))
         | Some cls \<Rightarrow>
             Inr \<lparr> cfg_optimizer =
                     \<lparr> opt_class = cls, opt_params = ps, opt_lr = lr hp,
                       opt_weight_decay = weight_decay hp \<rparr>,
                   lr_scheduler = make_scheduler hp max_epochs \<rparr>)"

subsection \<open>What the schedulers compute\<close>

text \<open>
  The learning rate of a scheduler at an epoch, as a multiple of the optimizer's initial
  learning rate, after the closed forms PyTorch documents: cosine annealing to zero over
  \<open>T_max\<close> epochs, a linear ramp from \<open>start_factor\<close> to one over \<open>total_iters\<close>
  epochs, and a sequence that runs scheduler number \<^verbatim>\<open>bisect_right(milestones, epoch)\<close>
  from its own epoch zero at the milestone before it.
\<close>

definition bisect_right :: "int list \<Rightarrow> int \<Rightarrow> nat" where
  "bisect_right ms x = length (takeWhile (\<lambda>m. m \<le> x) ms)"

definition cosine_factor :: "int \<Rightarrow> int \<Rightarrow> error + real" where
  "cosine_factor T_max e =
     (if e = 0 then Inr 1
      else if T_max = 0 then Inl ZeroDivisionError
      else Inr ((1 + cos (pi * real_of_int e / real_of_int T_max)) / 2))"

definition linear_factor :: "real \<Rightarrow> int \<Rightarrow> int \<Rightarrow> error + real" where
  "linear_factor start_factor total_iters e =
     (if total_iters = 0 then Inl ZeroDivisionError
      else Inr (start_factor
             + (1 - start_factor) * real_of_int (min total_iters e) / real_of_int total_iters))"

lemma size_nth_scheduler:
  fixes ss :: "scheduler list"
  shows "i < length ss \<Longrightarrow> size (ss ! i) < Suc (size_list size ss)"
proof (induction ss arbitrary: i)
  case Nil
  then show ?case by simp
next
  case (Cons s ss)
  then show ?case by (cases i) fastforce+
qed

function lr_factor :: "scheduler \<Rightarrow> int \<Rightarrow> error + real" where
  "lr_factor (CosineAnnealingLR T_max) e = cosine_factor T_max e"
| "lr_factor (LinearLR start_factor total_iters) e = linear_factor start_factor total_iters e"
| "lr_factor (SequentialLR schedulers milestones) e =
     (let idx = bisect_right milestones e
      in if idx < length schedulers
         then lr_factor (schedulers ! idx)
                (if idx = 0 then e else e - milestones ! (idx - 1))
         else Inl IndexError)"
  by pat_completeness auto
termination
  by (relation "measure (\<lambda>(s, e). size s)") (auto simp: size_nth_scheduler)

text \<open>The scheduler of a sequence that is stepped at an epoch.\<close>

definition active_scheduler :: "scheduler \<Rightarrow> int \<Rightarrow> scheduler option" where
  "active_scheduler s e =
     (case s of
        SequentialLR schedulers milestones \<Rightarrow>
          (let idx = bisect_right milestones e
           in if idx < length schedulers then Some (schedulers ! idx) else None)
      | _ \<Rightarrow> Some s)"

subsection \<open>Notions the properties are stated with\<close>

text \<open>
  Index \<open>i\<close> is the prediction for a row of logits: the entry there is maximal, and no
  earlier entry is as large. A label is predicted when it is that index.
\<close>

definition is_first_max :: "real list \<Rightarrow> nat \<Rightarrow> bool" where
  "is_first_max row i =
     (i < length row \<and> (\<forall>j < length row. row ! j \<le> row ! i) \<and> (\<forall>j < i. row ! j < row ! i))"

definition predicts :: "real list \<Rightarrow> int \<Rightarrow> bool" where
  "predicts row l = (0 \<le> l \<and> is_first_max row (nat l))"

text \<open>
  The identifiers of the registry: the names whose entry, when called, returns a
  backbone.
\<close>

definition backbone_identifiers :: "registry \<Rightarrow> string set" where
  "backbone_identifiers reg = {s. \<exists>b. reg s = Some (Inr b)}"

text \<open>Every parameter a module of the tree has registered, once per registration.\<close>

definition tree_parameters :: "module \<Rightarrow> param list" where
  "tree_parameters self = concat (map own_params (modules self))"


text \<open>The values of \<open>T_max\<close> of the cosine schedulers in a schedule.\<close>

fun cosine_phases :: "scheduler \<Rightarrow> int list" where
  "cosine_phases (CosineAnnealingLR T_max) = [T_max]"
| "cosine_phases (LinearLR start_factor total_iters) = []"
| "cosine_phases (SequentialLR schedulers milestones) = concat (map cosine_phases schedulers)"

subsection \<open>Concrete inputs\<close>

definition example_hparams :: hparams where
  "example_hparams =
     default_hparams (Instance \<lparr> get_out_channels = [64, 128, 256] \<rparr>) 10 ''train'' ''val''"

definition example_classifier :: image_classifier where
  "example_classifier =
     \<lparr> ic_backbone = \<lparr> get_out_channels = [64, 128, 256] \<rparr>,
       ic_classifier = [AdaptiveAvgPool2d 1 1, Flatten, Linear 256 10],
       train_transforms =
         [RandomHorizontalFlip, TrivialAugmentWide, ConvertImageDtype, Normalize,
          RandomErasing (1 / 10)],
       mixup_cutmix = Some (RandomCutMixMixUp 10 1 (2 / 10)),
       ic_hparams = example_hparams \<rparr>"

definition example_registry :: registry where
  "example_registry =
     [''__name__'' \<mapsto> Inl TypeError,
      ''resnet18'' \<mapsto> Inr \<lparr> get_out_channels = [64, 128, 256, 512] \<rparr>]"

text \<open>
  Stand-ins for the library: images are their own logits, transforms and mixer leave a
  batch as it is, and the loss is the smoothing factor.
\<close>

definition example_ops :: "(real list list, real list list, nat) ops" where
  "example_ops =
     \<lparr> apply_transforms = (\<lambda>ts r x. (x, Suc r)),
       apply_mixer = (\<lambda>m r b. (b, Suc r)),
       backbone_forward = (\<lambda>b x. x),
       classifier_forward = (\<lambda>c x. x),
       cross_entropy = (\<lambda>lg lb s. Finite s) \<rparr>"

text \<open>
  A composite module that owns parameter 0, with a batch-norm leaf (parameters 1 and 2)
  and a linear leaf (parameter 3, and parameter 4 frozen).
\<close>

definition example_tree :: module where
  "example_tree =
     Module OtherClass [Param 0 True]
       [Module BatchNorm [Param 1 True, Param 2 True] [],
        Module OtherClass [Param 3 True, Param 4 False] []]"


section \<open>Properties\<close>

subsection \<open>Top-1 accuracy of a validation batch\<close>

lemma is_first_max_unique:
  "is_first_max row i \<Longrightarrow> is_first_max row k \<Longrightarrow> i = k"
  unfolding is_first_max_def
  by (metis linorder_neqE_nat not_le)

lemma argmax_from_first_max:
  assumes "length pre = i" "bi < i" "pre ! bi = best"
    and "\<forall>j < i. pre ! j \<le> best" "\<forall>j < bi. pre ! j < best"
  shows "is_first_max (pre @ xs) (argmax_from xs i best bi)"
  using assms
proof (induction xs arbitrary: pre i best bi)
  case Nil
  then show ?case by (simp add: is_first_max_def)
next
  case (Cons x xs)
  show ?case
  proof (cases "x > best")
    case True
    have "is_first_max ((pre @ [x]) @ xs) (argmax_from xs (Suc i) x i)"
    proof (rule Cons.IH)
      show "length (pre @ [x]) = Suc i" using Cons.prems by simp
      show "i < Suc i" by simp
      show "(pre @ [x]) ! i = x" using Cons.prems by (simp add: nth_append)
      show "\<forall>j<Suc i. (pre @ [x]) ! j \<le> x"
        using Cons.prems True by (auto simp: nth_append less_Suc_eq intro: order_trans less_imp_le)
      show "\<forall>j<i. (pre @ [x]) ! j < x"
        using Cons.prems True by (auto simp: nth_append)
    qed
    with True show ?thesis by simp
  next
    case False
    have "is_first_max ((pre @ [x]) @ xs) (argmax_from xs (Suc i) best bi)"
    proof (rule Cons.IH)
      show "length (pre @ [x]) = Suc i" using Cons.prems by simp
      show "bi < Suc i" using Cons.prems by simp
      show "(pre @ [x]) ! bi = best" using Cons.prems by (simp add: nth_append)
      show "\<forall>j<Suc i. (pre @ [x]) ! j \<le> best"
        using Cons.prems False by (auto simp: nth_append less_Suc_eq)
      show "\<forall>j<bi. (pre @ [x]) ! j < best"
        using Cons.prems by (auto simp: nth_append)
    qed
    with False show ?thesis by simp
  qed
qed

lemma argmax_first_max:
  "row \<noteq> [] \<Longrightarrow> \<exists>i. argmax row = Inr i \<and> is_first_max row i"
proof (cases row)
  case Nil
  assume "row \<noteq> []"
  with Nil show ?thesis by simp
next
  case (Cons x xs)
  have "is_first_max ([x] @ xs) (argmax_from xs 1 x 0)"
    by (rule argmax_from_first_max) simp_all
  with Cons show ?thesis by (simp add: argmax_def)
qed

lemma argmax_rows_nth:
  "\<forall>row \<in> set rows. row \<noteq> [] \<Longrightarrow>
   \<exists>preds. argmax_rows rows = Inr preds \<and> length preds = length rows \<and>
     (\<forall>i < length rows. \<exists>k. preds ! i = int k \<and> is_first_max (rows ! i) k)"
proof (induction rows)
  case Nil
  then show ?case by simp
next
  case (Cons r rs)
  from Cons.prems obtain k where k: "argmax r = Inr k" "is_first_max r k"
    using argmax_first_max[of r] by auto
  from Cons obtain preds where p: "argmax_rows rs = Inr preds" "length preds = length rs"
    "\<forall>i < length rs. \<exists>k. preds ! i = int k \<and> is_first_max (rs ! i) k"
    by auto
  have "\<forall>i < length (r # rs). \<exists>k'. (int k # preds) ! i = int k' \<and> is_first_max ((r # rs) ! i) k'"
    using k p by (auto simp: nth_Cons split: nat.splits)
  with k p show ?case by simp
qed

lemma predicts_iff:
  "is_first_max row k \<Longrightarrow> (l = int k) = predicts row l"
  unfolding predicts_def using is_first_max_unique[of row k "nat l"] by auto

lemma top1_accuracy_count:
  assumes a: "length logits = length lbls \<and> lbls \<noteq> [] \<and> (\<forall>row \<in> set logits. row \<noteq> [])"
  shows "top1_accuracy logits lbls =
        Inr (Finite (real (card {i. i < length lbls \<and> predicts (logits ! i) (lbls ! i)})
                       / real (length lbls)))"
proof -
  from a obtain preds where p: "argmax_rows logits = Inr preds" "length preds = length logits"
    "\<forall>i < length logits. \<exists>k. preds ! i = int k \<and> is_first_max (logits ! i) k"
    using argmax_rows_nth[of logits] by auto
  have len: "length lbls = length preds" using a p by simp
  have pt: "(lbls ! i = preds ! i) = predicts (logits ! i) (lbls ! i)" if "i < length lbls" for i
  proof -
    from that a p(3) obtain k where "preds ! i = int k" "is_first_max (logits ! i) k"
      by auto
    then show ?thesis using predicts_iff[of "logits ! i" k "lbls ! i"] by simp
  qed
  have "{i. i < length (zip lbls preds) \<and> (case zip lbls preds ! i of (l, q) \<Rightarrow> l = q)}
      = {i. i < length lbls \<and> predicts (logits ! i) (lbls ! i)}"
  proof (rule Collect_cong)
    fix i
    show "(i < length (zip lbls preds) \<and> (case zip lbls preds ! i of (l, q) \<Rightarrow> l = q))
        = (i < length lbls \<and> predicts (logits ! i) (lbls ! i))"
      using pt[of i] len by (cases "i < length lbls") simp_all
  qed
  then have "length (filter (\<lambda>(l, q). l = q) (zip lbls preds))
      = card {i. i < length lbls \<and> predicts (logits ! i) (lbls ! i)}"
    by (simp add: length_filter_conv_card)
  moreover have "length lbls \<noteq> 0" using a by simp
  ultimately show ?thesis
    using p(1) len by (simp add: top1_accuracy_def count_equal_def tensor_div_def)
qed

text \<open>
  C9. For a validation batch of at least one sample, with one non-empty row of logits
  per label, the accuracy logged as \<^verbatim>\<open>val/acc\<close> is the number of samples whose label is
  the argmax of their logits, divided by the batch size. For the logits
  \<open>[[2, 1], [0, 3]]\<close> and the labels \<open>[0, 1]\<close> the predictions are \<open>[0, 1]\<close> and the
  accuracy is one.
\<close>

theorem validation_step_accuracy:
  "(length (forward ops self images) = length lbls \<and> lbls \<noteq> [] \<and>
      (\<forall>row \<in> set (forward ops self images). row \<noteq> []) \<longrightarrow>
    (\<exists>l. validation_step ops self (images, lbls) =
       ([(''val/loss'', l),
         (''val/acc'',
           Finite (real (card {i. i < length lbls \<and>
                            predicts (forward ops self images ! i) (lbls ! i)})
                   / real (length lbls)))], None)))
   \<and> argmax_rows [[2, 1], [0, 3]] = Inr [0, 1]
   \<and> top1_accuracy [[2, 1], [0, 3]] [0, 1] = Inr (Finite 1)"
proof (intro conjI impI)
  assume "length (forward ops self images) = length lbls \<and> lbls \<noteq> [] \<and>
      (\<forall>row \<in> set (forward ops self images). row \<noteq> [])"
  from top1_accuracy_count[OF this]
  show "\<exists>l. validation_step ops self (images, lbls) =
       ([(''val/loss'', l),
         (''val/acc'',
           Finite (real (card {i. i < length lbls \<and>
                            predicts (forward ops self images ! i) (lbls ! i)})
                   / real (length lbls)))], None)"
    by (simp add: validation_step_def Let_def)
next
  show "argmax_rows [[2, 1], [0, 3]] = Inr [0, 1]" by (simp add: argmax_def)
next
  show "top1_accuracy [[2, 1], [0, 3]] [0, 1] = Inr (Finite 1)"
    by (simp add: top1_accuracy_def argmax_def count_equal_def tensor_div_def)
qed

theorem validation_step_accuracy_witness:
  "[1, 1, 1::int] \<noteq> [] \<and>
   (\<exists>l. validation_step example_ops example_classifier ([[1, 5], [7, 2], [3, 3]], [1, 1, 1]) =
     ([(''val/loss'', l),
       (''val/acc'',
         Finite (real (card {i. i < length [1, 1, 1::int] \<and>
              predicts (forward example_ops example_classifier [[1, 5], [7, 2], [3, 3]] ! i)
                ([1, 1, 1] ! i)})
           / real (length [1, 1, 1::int])))], None))"
proof -
  have h: "length (forward example_ops example_classifier [[1, 5], [7, 2], [3, 3]])
             = length [1, 1, 1::int] \<and> [1, 1, 1::int] \<noteq> [] \<and>
           (\<forall>row \<in> set (forward example_ops example_classifier [[1, 5], [7, 2], [3, 3]]).
              row \<noteq> [])"
    by (simp add: forward_def example_ops_def)
  from validation_step_accuracy
    [of example_ops example_classifier "[[1, 5], [7, 2], [3, 3]]" "[1, 1, 1]"] h
  show ?thesis by blast
qed

subsection \<open>Parameter groups\<close>

lemma set_dedup_memo: "set (dedup_memo memo xs) = set xs - set memo"
  by (induction xs arbitrary: memo) auto

lemma distinct_dedup_memo: "distinct (dedup_memo memo xs)"
  by (induction xs arbitrary: memo) (auto simp: set_dedup_memo)





lemma set_parameters_True: "set (parameters True m) = set (tree_parameters m)"
  by (simp add: parameters_def tree_parameters_def set_dedup_memo)















text \<open>
  C5. Without \<^verbatim>\<open>norm_weight_decay\<close> the optimizer is given \<^verbatim>\<open>self.parameters()\<close> as
  it is; with it, the groups it is given are the two lists of the loop without those
  that are empty, so none of its groups is empty. Either way the optimizer is built
  with \<^verbatim>\<open>weight_decay\<close> as its coefficient.
\<close>

theorem no_empty_parameter_group:
  "(norm_weight_decay hp = None \<longrightarrow> optimizer_parameters hp self = Flat (parameters True self))
   \<and> (\<forall>nwd. norm_weight_decay hp = Some nwd \<longrightarrow>
        (\<exists>gs. optimizer_parameters hp self = Groups gs \<and>
           gs = filter (\<lambda>(p, w). p \<noteq> [])
                  [(fst (param_groups self), nwd), (snd (param_groups self), weight_decay hp)] \<and>
           (\<forall>g \<in> set gs. fst g \<noteq> [])))
   \<and> (\<forall>cls. optimizers (optimizer hp) = Some cls \<longrightarrow>
        (\<exists>c. configure_optimizers hp self max_epochs = Inr c \<and>
           opt_class (cfg_optimizer c) = cls \<and>
           opt_params (cfg_optimizer c) = optimizer_parameters hp self \<and>
           opt_weight_decay (cfg_optimizer c) = weight_decay hp))"
  by (auto simp: optimizer_parameters_def configure_optimizers_def)

theorem no_empty_parameter_group_witness:
  "norm_weight_decay (example_hparams\<lparr>norm_weight_decay := None\<rparr>) = None \<and>
   optimizer_parameters (example_hparams\<lparr>norm_weight_decay := None\<rparr>) example_tree
     = Flat (parameters True example_tree) \<and>
   optimizers (optimizer example_hparams) = Some (SGD (9 / 10)) \<and>
   (\<exists>c. configure_optimizers example_hparams example_tree 10 = Inr c \<and>
      opt_class (cfg_optimizer c) = SGD (9 / 10) \<and>
      opt_params (cfg_optimizer c) = optimizer_parameters example_hparams example_tree \<and>
      opt_weight_decay (cfg_optimizer c) = weight_decay example_hparams)"
proof -
  have h1: "norm_weight_decay (example_hparams\<lparr>norm_weight_decay := None\<rparr>) = None"
    by simp
  have h2: "optimizers (optimizer example_hparams) = Some (SGD (9 / 10))"
    by (simp add: example_hparams_def default_hparams_def optimizers_def)
  from no_empty_parameter_group
         [of "example_hparams\<lparr>norm_weight_decay := None\<rparr>" example_tree 10] h1
       no_empty_parameter_group[of example_hparams example_tree 10] h2
  show ?thesis by blast
qed




subsection \<open>The constructor and the steps\<close>

text \<open>
  C3. For a classifier that \<^verbatim>\<open>__init__\<close> has built, the mixer exists exactly when both
  \<^verbatim>\<open>mixup_alpha\<close> and \<^verbatim>\<open>cutmix_alpha\<close> are positive, and \<^verbatim>\<open>training_step\<close> applies it
  to the transformed images and the labels exactly then; otherwise the transformed
  images and the labels go on as they are.
\<close>

theorem mixup_cutmix_iff_both_alphas:
  "init reg hp = Inr self \<longrightarrow>
     (mixup_cutmix self \<noteq> None) = (mixup_alpha hp > 0 \<and> cutmix_alpha hp > 0)
   \<and> training_inputs ops self rng (images, lbls) =
       (let (images', rng1) = apply_transforms ops (train_transforms self) rng images
        in if mixup_alpha hp > 0 \<and> cutmix_alpha hp > 0
           then apply_mixer ops
                  (RandomCutMixMixUp (num_classes hp) (cutmix_alpha hp) (mixup_alpha hp))
                  rng1 (images', lbls)
           else ((images', lbls), rng1))
   \<and> (\<not> (mixup_alpha hp > 0 \<and> cutmix_alpha hp > 0) \<longrightarrow>
        fst (training_inputs ops self rng (images, lbls)) =
          (fst (apply_transforms ops (train_transforms self) rng images), lbls))"
  by (auto simp: init_def make_mixup_cutmix_def training_inputs_def
      split: sum.splits prod.splits)

theorem mixup_cutmix_iff_both_alphas_witness:
  "init Map.empty (example_hparams\<lparr>mixup_alpha := 0\<rparr>)
     = Inr (example_classifier\<lparr>mixup_cutmix := None,
              ic_hparams := example_hparams\<lparr>mixup_alpha := 0\<rparr>\<rparr>) \<and>
   \<not> (mixup_alpha (example_hparams\<lparr>mixup_alpha := 0\<rparr>) > 0
      \<and> cutmix_alpha (example_hparams\<lparr>mixup_alpha := 0\<rparr>) > 0) \<and>
   fst (training_inputs example_ops
         (example_classifier\<lparr>mixup_cutmix := None,
              ic_hparams := example_hparams\<lparr>mixup_alpha := 0\<rparr>\<rparr>) 0
         ([[1, 2]], Hard [1])) =
     (fst (apply_transforms example_ops
        (train_transforms (example_classifier\<lparr>mixup_cutmix := None,
              ic_hparams := example_hparams\<lparr>mixup_alpha := 0\<rparr>\<rparr>)) 0 [[1, 2]]), Hard [1])"
proof -
  have h1: "init Map.empty (example_hparams\<lparr>mixup_alpha := 0\<rparr>)
     = Inr (example_classifier\<lparr>mixup_cutmix := None,
              ic_hparams := example_hparams\<lparr>mixup_alpha := 0\<rparr>\<rparr>)"
    by (simp add: init_def example_hparams_def example_classifier_def default_hparams_def
      resolve_backbone_def last_channel_def make_train_transforms_def make_mixup_cutmix_def)
  have h2: "\<not> (mixup_alpha (example_hparams\<lparr>mixup_alpha := 0\<rparr>) > 0
      \<and> cutmix_alpha (example_hparams\<lparr>mixup_alpha := 0\<rparr>) > 0)"
    by simp
  from mixup_cutmix_iff_both_alphas
    [of Map.empty "example_hparams\<lparr>mixup_alpha := 0\<rparr>"
        "example_classifier\<lparr>mixup_cutmix := None,
              ic_hparams := example_hparams\<lparr>mixup_alpha := 0\<rparr>\<rparr>"
        example_ops 0 "[[1, 2]]" "Hard [1]"] h1 h2
  show ?thesis by blast
qed

text \<open>
  C8. The loss of \<^verbatim>\<open>training_step\<close> is the cross-entropy of the logits against the
  labels that come out of the augmentation, with no label smoothing, and no
  hyper-parameter (\<^verbatim>\<open>label_smoothing\<close> among them) has a part in it; the loss that
  \<^verbatim>\<open>validation_step\<close> logs is the cross-entropy against the integer labels with the
  \<^verbatim>\<open>label_smoothing\<close> of the hyper-parameters.
\<close>

theorem smoothing_in_validation_only:
  "loss (training_step ops self rng batch) =
     cross_entropy ops
       (forward ops self (fst (fst (training_inputs ops self rng batch))))
       (snd (fst (training_inputs ops self rng batch))) 0
   \<and> training_step ops (self\<lparr>ic_hparams := hp'\<rparr>) rng batch = training_step ops self rng batch
   \<and> hd (fst (validation_step ops self (images, lbls))) =
       (''val/loss'',
        cross_entropy ops (forward ops self images) (Hard lbls)
          (label_smoothing (ic_hparams self)))"
  by (simp add: training_step_def training_inputs_def validation_step_def forward_def
      Let_def split: prod.splits sum.splits option.splits)

text \<open>
  C6, as the claim has it, fails: \<^verbatim>\<open>__name__\<close> is no identifier of the registry, yet it
  is a key of the namespace; the lookup succeeds and the call of the entry raises
  \<^verbatim>\<open>TypeError\<close>, not the error of an unknown name.
\<close>

theorem init_unknown_backbone_counterexample:
  "''__name__'' \<notin> backbone_identifiers example_registry \<and>
   init example_registry (example_hparams\<lparr>backbone := Name ''__name__''\<rparr>) = Inl TypeError \<and>
   init example_registry (example_hparams\<lparr>backbone := Name ''__name__''\<rparr>)
     \<noteq> Inl (KeyError ''__name__'')"
  by (simp add: backbone_identifiers_def example_registry_def init_def resolve_backbone_def)

text \<open>
  C6, amended. For a backbone given by name, \<^verbatim>\<open>__init__\<close> fails at its first statement
  with the \<^verbatim>\<open>KeyError\<close> of the lookup when the name is not a key of the namespace, and
  with the error of the call when the entry of that name cannot be called to give a
  backbone; it returns a classifier only when the call has returned its backbone. So
  for every name that is no identifier of the registry the construction fails, and
  nothing is there to run a forward pass on.
\<close>

theorem init_unknown_backbone:
  "backbone hp = Name name \<longrightarrow>
     (reg name = None \<longrightarrow> init reg hp = Inl (KeyError name))
   \<and> (\<forall>e. reg name = Some (Inl e) \<longrightarrow> init reg hp = Inl e)
   \<and> (\<forall>self. init reg hp = Inr self \<longrightarrow> reg name = Some (Inr (ic_backbone self)))
   \<and> (name \<notin> backbone_identifiers reg \<longrightarrow> (\<exists>e. init reg hp = Inl e))"
proof (intro impI conjI allI)
  assume n: "backbone hp = Name name"
  show "init reg hp = Inl (KeyError name)" if "reg name = None"
    using n that by (simp add: init_def resolve_backbone_def)
  show "init reg hp = Inl e" if "reg name = Some (Inl e)" for e
    using n that by (simp add: init_def resolve_backbone_def)
  show "reg name = Some (Inr (ic_backbone self))" if "init reg hp = Inr self" for self
    using n that
    by (auto simp: init_def resolve_backbone_def split: option.splits sum.splits)
  show "\<exists>e. init reg hp = Inl e" if "name \<notin> backbone_identifiers reg"
  proof (cases "reg name")
    case None
    with n show ?thesis by (simp add: init_def resolve_backbone_def)
  next
    case (Some r)
    with that obtain e where "r = Inl e"
      by (cases r) (auto simp: backbone_identifiers_def)
    with Some n show ?thesis by (simp add: init_def resolve_backbone_def)
  qed
qed

theorem init_unknown_backbone_witness:
  "backbone (example_hparams\<lparr>backbone := Name ''not_a_model''\<rparr>) = Name ''not_a_model'' \<and>
   example_registry ''not_a_model'' = None \<and>
   init example_registry (example_hparams\<lparr>backbone := Name ''not_a_model''\<rparr>)
     = Inl (KeyError ''not_a_model'') \<and>
   backbone (example_hparams\<lparr>backbone := Name ''__name__''\<rparr>) = Name ''__name__'' \<and>
   example_registry ''__name__'' = Some (Inl TypeError) \<and>
   init example_registry (example_hparams\<lparr>backbone := Name ''__name__''\<rparr>) = Inl TypeError"
proof -
  have h1: "backbone (example_hparams\<lparr>backbone := Name ''not_a_model''\<rparr>) = Name ''not_a_model''"
    by simp
  have h2: "example_registry ''not_a_model'' = None"
    by (simp add: example_registry_def)
  have h3: "backbone (example_hparams\<lparr>backbone := Name ''__name__''\<rparr>) = Name ''__name__''"
    by simp
  have h4: "example_registry ''__name__'' = Some (Inl TypeError)"
    by (simp add: example_registry_def)
  from init_unknown_backbone
         [where hp = "example_hparams\<lparr>backbone := Name ''not_a_model''\<rparr>"
            and name = "''not_a_model''" and reg = example_registry]
       init_unknown_backbone
         [where hp = "example_hparams\<lparr>backbone := Name ''__name__''\<rparr>"
            and name = "''__name__''" and reg = example_registry]
       h1 h2 h3 h4
  show ?thesis by blast
qed

subsection \<open>The learning-rate schedule\<close>

lemma optimizers_known:
  "optimizers (optimizer hp) = Some cls \<Longrightarrow>
   configure_optimizers hp self max_epochs =
     Inr \<lparr> cfg_optimizer =
             \<lparr> opt_class = cls, opt_params = optimizer_parameters hp self, opt_lr = lr hp,
               opt_weight_decay = weight_decay hp \<rparr>,
           lr_scheduler = make_scheduler hp max_epochs \<rparr>"
  by (simp add: configure_optimizers_def)

lemma init_ignores_warmup:
  "init reg (hp\<lparr>warmup_epochs := w\<rparr>) =
     map_sum id (\<lambda>s. s\<lparr>ic_hparams := (ic_hparams s)\<lparr>warmup_epochs := w\<rparr>\<rparr>) (init reg hp)"
  by (simp add: init_def split: sum.splits)

text \<open>
  C2. With \<^verbatim>\<open>warmup_epochs\<close> zero and an optimizer of the table, what
  \<^verbatim>\<open>configure_optimizers\<close> returns as scheduler is the cosine scheduler over
  \<open>max_epochs\<close> itself, in no sequence: at every epoch it is the scheduler that is
  stepped, and the factor is the cosine factor.
\<close>

theorem no_warmup_cosine_alone:
  "warmup_epochs hp = 0 \<Longrightarrow> optimizers (optimizer hp) = Some cls \<Longrightarrow>
   \<exists>c. configure_optimizers hp self max_epochs = Inr c \<and>
     lr_scheduler c = CosineAnnealingLR max_epochs \<and>
     lr_factor (lr_scheduler c) e = cosine_factor max_epochs e \<and>
     active_scheduler (lr_scheduler c) e = Some (CosineAnnealingLR max_epochs)"
  by (simp add: optimizers_known make_scheduler_def active_scheduler_def)

theorem no_warmup_cosine_alone_witness:
  "warmup_epochs (example_hparams\<lparr>warmup_epochs := 0\<rparr>) = 0 \<and>
   optimizers (optimizer (example_hparams\<lparr>warmup_epochs := 0\<rparr>)) = Some (SGD (9 / 10)) \<and>
   (\<exists>c. configure_optimizers (example_hparams\<lparr>warmup_epochs := 0\<rparr>) example_tree 10 = Inr c \<and>
     lr_scheduler c = CosineAnnealingLR 10 \<and>
     lr_factor (lr_scheduler c) 10 = cosine_factor 10 10 \<and>
     active_scheduler (lr_scheduler c) 10 = Some (CosineAnnealingLR 10))"
proof -
  have h1: "warmup_epochs (example_hparams\<lparr>warmup_epochs := 0\<rparr>) = 0"
    by simp
  have h2: "optimizers (optimizer (example_hparams\<lparr>warmup_epochs := 0\<rparr>)) = Some (SGD (9 / 10))"
    by (simp add: example_hparams_def default_hparams_def optimizers_def)
  from no_warmup_cosine_alone[OF h1 h2, of example_tree 10 10] h1 h2
  show ?thesis by blast
qed

text \<open>
  C7, as the claim has it, fails: with \<^verbatim>\<open>warmup_epochs = 5\<close> and five epochs in all,
  the constructor returns a classifier and \<^verbatim>\<open>configure_optimizers\<close> returns a schedule
  whose cosine scheduler has \<open>T_max = 0\<close>.
\<close>

theorem warmup_not_validated_counterexample:
  "warmup_epochs example_hparams \<ge> 5 \<and>
   init example_registry example_hparams = Inr example_classifier \<and>
   configure_optimizers example_hparams example_tree 5 =
     Inr \<lparr> cfg_optimizer =
             \<lparr> opt_class = SGD (9 / 10),
               opt_params = Groups [([Param 1 True, Param 2 True], 0),
                                    ([Param 0 True, Param 3 True], 2 / 100000)],
               opt_lr = 5 / 100, opt_weight_decay = 2 / 100000 \<rparr>,
           lr_scheduler = SequentialLR [CosineAnnealingLR 0, LinearLR (1 / 100) 5] [5] \<rparr>"
  by (simp add: init_def example_hparams_def example_classifier_def default_hparams_def
      resolve_backbone_def last_channel_def make_train_transforms_def make_mixup_cutmix_def
      configure_optimizers_def optimizers_def make_scheduler_def
      optimizer_parameters_def param_groups_def example_tree_def parameters_def
      isinstance_norm_def)

text \<open>
  C7, amended. Whether \<^verbatim>\<open>__init__\<close> fails does not depend on \<^verbatim>\<open>warmup_epochs\<close>; and
  with \<^verbatim>\<open>warmup_epochs\<close> at or above the number of epochs and an optimizer of the
  table, \<^verbatim>\<open>configure_optimizers\<close> returns a schedule whose one cosine scheduler has
  the number of epochs less \<^verbatim>\<open>warmup_epochs\<close> as \<open>T_max\<close>, which is zero or negative.
\<close>

theorem warmup_not_validated:
  "isl (init reg (hp\<lparr>warmup_epochs := w\<rparr>)) = isl (init reg hp)
   \<and> (max_epochs \<le> warmup_epochs hp \<and> optimizers (optimizer hp) = Some cls \<longrightarrow>
        (\<exists>c. configure_optimizers hp self max_epochs = Inr c \<and>
           cosine_phases (lr_scheduler c) = [max_epochs - warmup_epochs hp] \<and>
           max_epochs - warmup_epochs hp \<le> 0))"
proof (intro conjI impI)
  show "isl (init reg (hp\<lparr>warmup_epochs := w\<rparr>)) = isl (init reg hp)"
    unfolding init_ignores_warmup by (cases "init reg hp") simp_all
next
  assume a: "max_epochs \<le> warmup_epochs hp \<and> optimizers (optimizer hp) = Some cls"
  then have "cosine_phases (make_scheduler hp max_epochs) = [max_epochs - warmup_epochs hp]"
    by (simp add: make_scheduler_def Let_def)
  with a show "\<exists>c. configure_optimizers hp self max_epochs = Inr c \<and>
           cosine_phases (lr_scheduler c) = [max_epochs - warmup_epochs hp] \<and>
           max_epochs - warmup_epochs hp \<le> 0"
    by (simp add: optimizers_known)
qed

theorem warmup_not_validated_witness:
  "5 \<le> warmup_epochs example_hparams \<and>
   optimizers (optimizer example_hparams) = Some (SGD (9 / 10)) \<and>
   (\<exists>c. configure_optimizers example_hparams example_tree 5 = Inr c \<and>
           cosine_phases (lr_scheduler c) = [5 - warmup_epochs example_hparams] \<and>
           5 - warmup_epochs example_hparams \<le> 0)"
proof -
  have h1: "5 \<le> warmup_epochs example_hparams"
    by (simp add: example_hparams_def default_hparams_def)
  have h2: "optimizers (optimizer example_hparams) = Some (SGD (9 / 10))"
    by (simp add: example_hparams_def default_hparams_def optimizers_def)
  from warmup_not_validated
         [where hp = example_hparams and max_epochs = 5 and cls = "SGD (9 / 10)"
            and self = example_tree]
    h1 h2
  show ?thesis by blast
qed

text \<open>
  C1 fails on the code: the list given to \<^verbatim>\<open>SequentialLR\<close> has the cosine scheduler
  first and the warmup second. With the default hyper-parameters and ten epochs, the
  cosine scheduler is the one stepped at the epochs 0 to 4 and the linear ramp from
  epoch 5 on; the factor is 1 at epoch 0, \<^verbatim>\<open>warmup_decay\<close> after five steps, and back
  at 1 after ten.
\<close>

theorem warmup_runs_after_cosine:
  "configure_optimizers example_hparams example_tree 10 =
     Inr \<lparr> cfg_optimizer =
             \<lparr> opt_class = SGD (9 / 10),
               opt_params = Groups [([Param 1 True, Param 2 True], 0),
                                    ([Param 0 True, Param 3 True], 2 / 100000)],
               opt_lr = 5 / 100, opt_weight_decay = 2 / 100000 \<rparr>,
           lr_scheduler = SequentialLR [CosineAnnealingLR 5, LinearLR (1 / 100) 5] [5] \<rparr>
   \<and> active_scheduler (SequentialLR [CosineAnnealingLR 5, LinearLR (1 / 100) 5] [5]) 0
       = Some (CosineAnnealingLR 5)
   \<and> active_scheduler (SequentialLR [CosineAnnealingLR 5, LinearLR (1 / 100) 5] [5]) 4
       = Some (CosineAnnealingLR 5)
   \<and> active_scheduler (SequentialLR [CosineAnnealingLR 5, LinearLR (1 / 100) 5] [5]) 5
       = Some (LinearLR (1 / 100) 5)
   \<and> lr_factor (SequentialLR [CosineAnnealingLR 5, LinearLR (1 / 100) 5] [5]) 0 = Inr 1
   \<and> lr_factor (SequentialLR [CosineAnnealingLR 5, LinearLR (1 / 100) 5] [5]) 5 = Inr (1 / 100)
   \<and> lr_factor (SequentialLR [CosineAnnealingLR 5, LinearLR (1 / 100) 5] [5]) 10 = Inr 1"
  by (simp add: example_hparams_def default_hparams_def
      configure_optimizers_def optimizers_def make_scheduler_def
      optimizer_parameters_def param_groups_def example_tree_def parameters_def
      isinstance_norm_def active_scheduler_def bisect_right_def cosine_factor_def
      linear_factor_def)

end
